theory Spec2Isabelle
  imports Main
begin

section \<open>The trade-quoting hook \<open>useRouterTrade\<close>\<close>

text \<open>
  A shallow embedding of \<^verbatim>\<open>src/hooks/routing/useRouterTrade.ts\<close>. One call of the hook
  (one render) is a function of its four parameters and of what the hooks and helpers it
  calls return in that render. Those collaborators live outside the file (other hooks,
  the SDK, the query library), so they are the fields of the record \<open>Hooks\<close> and every
  theorem holds for whatever they return.
\<close>

subsection \<open>Data\<close>

datatype TradeType = EXACT_INPUT | EXACT_OUTPUT

datatype TradeState = LOADING | INVALID | NO_ROUTE_FOUND | VALID | SYNCING

text \<open>
  A currency of the SDK. The hook reads \<open>chainId\<close> only; it is a JavaScript number, and
  the SDK accepts any safe integer for it.
\<close>

record Currency =
  chainId :: int
  decimals :: nat
  symbol :: string

text \<open>
  An amount of the SDK: a currency and the integer \<open>quotient\<close> of its raw amount.
\<close>

record CurrencyAmount =
  currency :: Currency
  quotient :: int

text \<open>The fields of the quote response (\<^verbatim>\<open>GetQuoteResult\<close>) that the hook reads: all strings.\<close>

record GetQuoteResult =
  blockNumber :: string
  quote :: string
  gasUseEstimateUSD :: string

text \<open>What the hook returns: a state and, possibly, a trade (\<open>None\<close> is \<^verbatim>\<open>undefined\<close>).\<close>

record 't TradeResult =
  state :: TradeState
  trade :: "'t option"

definition INVALID_TRADE :: "'t TradeResult" where
  "INVALID_TRADE = \<lparr>state = INVALID, trade = None\<rparr>"

text \<open>
  What a render can throw: the error of line 57, with the chain id of its message, and
  the two errors of \<^verbatim>\<open>CurrencyAmount.fromRawAmount\<close> at line 107, which is outside the
  \<^verbatim>\<open>try\<close> of lines 120-129.
\<close>

datatype Error = UnsupportedChain int | BigIntSyntaxError string | InvariantAMOUNT

text \<open>
  \<^verbatim>\<open>CurrencyAmount.fromRawAmount(currency, rawAmount)\<close> of the SDK, on a string: the string
  is converted by \<^verbatim>\<open>JSBI.BigInt\<close>, which throws a syntax error on a string that is no
  integer literal (\<open>toBigInt\<close>, \<open>None\<close> when it throws), and the constructor then
  requires the quotient to be at most \<^verbatim>\<open>MaxUint256\<close> (\<^verbatim>\<open>invariant(..., 'AMOUNT')\<close>).
\<close>

definition MaxUint256 :: int where
  "MaxUint256 = 2 ^ 256 - 1"

definition fromRawAmount :: "(string \<Rightarrow> int option) \<Rightarrow> Currency \<Rightarrow> string \<Rightarrow> Error + CurrencyAmount" where
  "fromRawAmount toBigInt c raw =
     (case toBigInt raw of
        None \<Rightarrow> Inl (BigIntSyntaxError raw)
      | Some n \<Rightarrow> if n \<le> MaxUint256 then Inr \<lparr>currency = c, quotient = n\<rparr> else Inl InvariantAMOUNT)"

text \<open>
  The collaborators of one render. \<open>'q\<close> is the type of query arguments, \<open>'r\<close> of a route,
  \<open>'t\<close> of a trade and \<open>'e\<close> of whatever \<^verbatim>\<open>transformRoutesToTrade\<close> may throw.
  \<^item> \<open>useDebounce\<close> maps the current pair to the debounced pair;
  \<^item> \<open>useActiveWeb3React\<close> is \<^verbatim>\<open>library?.connection.url\<close>;
  \<^item> \<open>useRouterArguments\<close> takes the fields of its argument object in the order
    tokenIn, tokenOut, amount, tradeType, routerUrl, providerUrl; \<open>None\<close> is \<^verbatim>\<open>undefined\<close>;
  \<^item> \<open>useGetQuoteQuery\<close> takes the query arguments (\<open>None\<close> is \<^verbatim>\<open>skipToken\<close>) and returns
    \<^verbatim>\<open>(isFetching, isError, data, currentData)\<close>;
  \<^item> \<open>Number\<close> is JavaScript's conversion of a string, \<open>None\<close> for \<^verbatim>\<open>NaN\<close>;
  \<^item> \<open>BigInt\<close> is \<^verbatim>\<open>JSBI.BigInt\<close> on a string, \<open>None\<close> when it throws;
  \<^item> \<open>transformRoutesToTrade\<close> returns \<open>Inl\<close> of what it throws, \<open>Inr\<close> of the trade.
\<close>

record ('q, 'r, 't, 'e) Hooks =
  useAutoRouterSupported :: bool
  useIsWindowVisible :: bool
  useDebounce :: "CurrencyAmount option \<times> Currency option \<Rightarrow> CurrencyAmount option \<times> Currency option"
  AUTO_ROUTER_SUPPORTED_CHAINS :: "int list"
  useActiveWeb3React :: "string option"
  useRouterArguments :: "Currency option \<Rightarrow> Currency option \<Rightarrow> CurrencyAmount option \<Rightarrow> TradeType
    \<Rightarrow> string option \<Rightarrow> string \<Rightarrow> 'q option"
  useGetQuoteQuery :: "'q option \<Rightarrow> bool \<times> bool \<times> GetQuoteResult option \<times> GetQuoteResult option"
  useIsValidBlock :: "int \<Rightarrow> bool"
  Number :: "string \<Rightarrow> int option"
  BigInt :: "string \<Rightarrow> int option"
  computeRoutes :: "Currency option \<Rightarrow> Currency option \<Rightarrow> TradeType \<Rightarrow> GetQuoteResult option
    \<Rightarrow> 'r list option"
  useStablecoinAmountFromFiatValue :: "string option \<Rightarrow> CurrencyAmount option"
  transformRoutesToTrade :: "'r list \<Rightarrow> TradeType \<Rightarrow> CurrencyAmount option \<Rightarrow> 'e + 't"

text \<open>
  Modelled from the spec: the quote fetcher (\<^verbatim>\<open>state/routing/slice\<close>, on the query
  library) is not among the sources. Given "no request" it short-circuits to an idle
  state, so it reports no fetch in flight for \<^verbatim>\<open>skipToken\<close>.
\<close>

definition idleOnSkip :: "('q, 'r, 't, 'e) Hooks \<Rightarrow> bool" where
  "idleOnSkip h = (fst (useGetQuoteQuery h None) = False)"

subsection \<open>The steps of the hook\<close>

text \<open>
  Line 45:
  \<^verbatim>\<open>autoRouterSupported && isWindowVisible ? debouncedAmount : undefined\<close>.
\<close>

definition debouncedAmountSpecified ::
  "bool \<Rightarrow> bool \<Rightarrow> CurrencyAmount option \<Rightarrow> CurrencyAmount option" where
  "debouncedAmountSpecified autoRouterSupported isWindowVisible debouncedAmount =
     (if autoRouterSupported \<and> isWindowVisible then debouncedAmount else None)"

text \<open>
  Lines 47-53, the pair \<^verbatim>\<open>[currencyIn, currencyOut]\<close>;
  \<open>map_option currency\<close> is \<^verbatim>\<open>debouncedAmountSpecified?.currency\<close>.
\<close>

definition currencies ::
  "TradeType \<Rightarrow> CurrencyAmount option \<Rightarrow> Currency option \<Rightarrow> Currency option \<times> Currency option" where
  "currencies tradeType amount debouncedOtherCurrency =
     (if tradeType = EXACT_INPUT
      then (map_option currency amount, debouncedOtherCurrency)
      else (debouncedOtherCurrency, map_option currency amount))"

text \<open>
  Lines 55-58. The test \<^verbatim>\<open>chainId && !AUTO_ROUTER_SUPPORTED_CHAINS.includes(chainId)\<close> is
  false for an absent currency (\<^verbatim>\<open>chainId\<close> is \<^verbatim>\<open>undefined\<close>) and for the number 0, both
  falsy in JavaScript. The result is the chain id the error is thrown for, if any.
\<close>

definition unsupportedChain :: "int list \<Rightarrow> Currency option \<Rightarrow> int option" where
  "unsupportedChain supported currencyIn =
     (case currencyIn of
        None \<Rightarrow> None
      | Some c \<Rightarrow> if chainId c \<noteq> 0 \<and> chainId c \<notin> set supported then Some (chainId c) else None)"

text \<open>Line 63: \<^verbatim>\<open>library?.connection.url || ''\<close>.\<close>

definition providerUrl :: "string option \<Rightarrow> string" where
  "providerUrl url = (case url of None \<Rightarrow> [] | Some u \<Rightarrow> u)"

text \<open>
  Line 78: \<^verbatim>\<open>useIsValidBlock(Number(data?.blockNumber) || 0) ? data : undefined\<close>.
  \<open>blockOf\<close> is the number given to the oracle: 0 when there is no data, when the
  conversion gives \<^verbatim>\<open>NaN\<close> and when it gives 0.
\<close>

definition blockOf :: "(string \<Rightarrow> int option) \<Rightarrow> GetQuoteResult option \<Rightarrow> int" where
  "blockOf toNumber data =
     (case data of
        None \<Rightarrow> 0
      | Some d \<Rightarrow> (case toNumber (blockNumber d) of None \<Rightarrow> 0 | Some n \<Rightarrow> n))"

definition quoteResult ::
  "(int \<Rightarrow> bool) \<Rightarrow> (string \<Rightarrow> int option) \<Rightarrow> GetQuoteResult option \<Rightarrow> GetQuoteResult option" where
  "quoteResult isValidBlock toNumber data =
     (if isValidBlock (blockOf toNumber data) then data else None)"

text \<open>
  Line 88: \<^verbatim>\<open>currentData !== data\<close>. The query library hands out the cached response
  object itself, so identity of the two is equality of the values here.
\<close>

definition isSyncing :: "GetQuoteResult option \<Rightarrow> GetQuoteResult option \<Rightarrow> bool" where
  "isSyncing currentData data = (currentData \<noteq> data)"

text \<open>
  Lines 105-111, reached with both currencies present: the quoted amount, in the currency
  of the side that was not specified. \<open>Inl\<close> is what \<^verbatim>\<open>fromRawAmount\<close> throws; \<open>Inr None\<close>
  is \<^verbatim>\<open>undefined\<close>, when there is no quote result.
\<close>

definition otherAmount ::
  "(string \<Rightarrow> int option) \<Rightarrow> TradeType \<Rightarrow> Currency \<Rightarrow> Currency \<Rightarrow> GetQuoteResult option
   \<Rightarrow> Error + CurrencyAmount option" where
  "otherAmount toBigInt tradeType currencyIn currencyOut qr =
     (case qr of
        None \<Rightarrow> Inr None
      | Some q \<Rightarrow>
          (case fromRawAmount toBigInt (if tradeType = EXACT_INPUT then currencyOut else currencyIn)
                  (quote q) of
             Inl err \<Rightarrow> Inl err
           | Inr amount \<Rightarrow> Inr (Some amount)))"

text \<open>
  Lines 90-129, the function given to \<^verbatim>\<open>useMemo\<close>: the trade-state resolver. Its
  arguments are the transform and the conversion it calls, then the ten dependencies of
  lines 130-141:
  \<open>cIn\<close>, \<open>cOut\<close> (currencyIn, currencyOut), \<open>qr\<close> (quoteResult), \<open>fetching\<close> (isFetching),
  \<open>tt\<close> (tradeType), \<open>failed\<close> (isError), \<open>routes\<close> (route), \<open>args\<close> (queryArgs),
  \<open>gas\<close> (gasUseEstimateUSD) and \<open>syncing\<close> (isSyncing).
  \<open>Inl\<close> is the error of line 107, thrown out of the function; the \<^verbatim>\<open>try\<close> of lines 120-129
  is the case distinction on the transform's result. The test of line 113 is split in
  two: \<^verbatim>\<open>!route\<close> is the case \<open>None\<close>, the rest is the disjunction.
\<close>

definition tradeStateResolver ::
  "('r list \<Rightarrow> TradeType \<Rightarrow> CurrencyAmount option \<Rightarrow> 'e + 't) \<Rightarrow> (string \<Rightarrow> int option)
   \<Rightarrow> Currency option \<Rightarrow> Currency option \<Rightarrow> GetQuoteResult option \<Rightarrow> bool \<Rightarrow> TradeType \<Rightarrow> bool
   \<Rightarrow> 'r list option \<Rightarrow> 'q option \<Rightarrow> CurrencyAmount option \<Rightarrow> bool \<Rightarrow> Error + 't TradeResult" where
  "tradeStateResolver transform toBigInt cIn cOut qr fetching tt failed routes args gas syncing =
     (case cIn of
        None \<Rightarrow> Inr \<lparr>state = INVALID, trade = None\<rparr>
      | Some ci \<Rightarrow>
     (case cOut of
        None \<Rightarrow> Inr \<lparr>state = INVALID, trade = None\<rparr>
      | Some co \<Rightarrow>
          if fetching then Inr \<lparr>state = LOADING, trade = None\<rparr>
          else
            (case otherAmount toBigInt tt ci co qr of
               Inl err \<Rightarrow> Inl err
             | Inr amount \<Rightarrow>
            (case routes of
               None \<Rightarrow> Inr \<lparr>state = NO_ROUTE_FOUND, trade = None\<rparr>
             | Some r \<Rightarrow>
                 if failed \<or> amount = None \<or> r = [] \<or> args = None
                 then Inr \<lparr>state = NO_ROUTE_FOUND, trade = None\<rparr>
                 else
                   (case transform r tt gas of
                      Inr t \<Rightarrow> Inr \<lparr>state = (if syncing then SYNCING else VALID), trade = Some t\<rparr>
                    | Inl e \<Rightarrow> Inr \<lparr>state = INVALID, trade = None\<rparr>)))))"

text \<open>
  Lines 37-53: the amount and the currencies a render resolves, from the debounced pair
  and the gate.
\<close>

definition resolvedAmount ::
  "('q, 'r, 't, 'e) Hooks \<Rightarrow> CurrencyAmount option \<Rightarrow> Currency option \<Rightarrow> CurrencyAmount option" where
  "resolvedAmount h amountSpecified otherCurrency =
     debouncedAmountSpecified (useAutoRouterSupported h) (useIsWindowVisible h)
       (fst (useDebounce h (amountSpecified, otherCurrency)))"

definition resolvedCurrencies ::
  "('q, 'r, 't, 'e) Hooks \<Rightarrow> TradeType \<Rightarrow> CurrencyAmount option \<Rightarrow> Currency option
   \<Rightarrow> Currency option \<times> Currency option" where
  "resolvedCurrencies h tradeType amountSpecified otherCurrency =
     currencies tradeType (resolvedAmount h amountSpecified otherCurrency)
       (snd (useDebounce h (amountSpecified, otherCurrency)))"

text \<open>Lines 64-71: the query arguments of a render.\<close>

definition queryArgs ::
  "('q, 'r, 't, 'e) Hooks \<Rightarrow> TradeType \<Rightarrow> string option \<Rightarrow> CurrencyAmount option \<Rightarrow> Currency option
   \<Rightarrow> 'q option" where
  "queryArgs h tradeType routerUrl amountSpecified otherCurrency =
     useRouterArguments h
       (fst (resolvedCurrencies h tradeType amountSpecified otherCurrency))
       (snd (resolvedCurrencies h tradeType amountSpecified otherCurrency))
       (resolvedAmount h amountSpecified otherCurrency)
       tradeType routerUrl (providerUrl (useActiveWeb3React h))"

text \<open>
  The whole hook, lines 28-142. \<open>Inl\<close> is a thrown error: that of line 57, before any of
  the query hooks of lines 62-86 is called, or that of line 107 inside the resolver;
  \<open>Inr\<close> is the returned object.
\<close>

definition useRouterTrade ::
  "('q, 'r, 't, 'e) Hooks \<Rightarrow> TradeType \<Rightarrow> string option \<Rightarrow> CurrencyAmount option \<Rightarrow> Currency option
   \<Rightarrow> Error + 't TradeResult" where
  "useRouterTrade h tradeType routerUrl amountSpecified otherCurrency =
     (let (currencyIn, currencyOut) = resolvedCurrencies h tradeType amountSpecified otherCurrency
      in case unsupportedChain (AUTO_ROUTER_SUPPORTED_CHAINS h) currencyIn of
           Some n \<Rightarrow> Inl (UnsupportedChain n)
         | None \<Rightarrow>
             (let args = queryArgs h tradeType routerUrl amountSpecified otherCurrency;
                  (isFetching, isError, data, currentData) = useGetQuoteQuery h args;
                  qr = quoteResult (useIsValidBlock h) (Number h) data;
                  route = computeRoutes h currencyIn currencyOut tradeType qr;
                  gas = useStablecoinAmountFromFiatValue h (map_option gasUseEstimateUSD qr)
              in tradeStateResolver (transformRoutesToTrade h) (BigInt h) currencyIn currencyOut qr
                   isFetching tradeType isError route args gas (isSyncing currentData data)))"

subsection \<open>The resolver as a relation\<close>

text \<open>
  The same lines 90-129 with the two functions they call taken as relations between
  arguments and outcomes, so that nothing is assumed of them: \<open>T r tt gas out\<close> says that
  \<^verbatim>\<open>transformRoutesToTrade\<close> may end in \<open>out\<close>, \<open>F c raw out\<close> that \<^verbatim>\<open>fromRawAmount\<close> may.
  One rule for each way through the function, with the tests passed on the way; the
  dependencies are the tuple of lines 130-141 in its order.
\<close>

type_synonym ('q, 'r) Deps =
  "Currency option \<times> Currency option \<times> GetQuoteResult option \<times> bool \<times> TradeType \<times> bool
   \<times> 'r list option \<times> 'q option \<times> CurrencyAmount option \<times> bool"

inductive resolves ::
  "('r list \<Rightarrow> TradeType \<Rightarrow> CurrencyAmount option \<Rightarrow> 'e + 't \<Rightarrow> bool)
   \<Rightarrow> (Currency \<Rightarrow> string \<Rightarrow> Error + CurrencyAmount \<Rightarrow> bool)
   \<Rightarrow> ('q, 'r) Deps \<Rightarrow> Error + 't TradeResult \<Rightarrow> bool"
  for T F where
  no_currency:
    "cIn = None \<or> cOut = None \<Longrightarrow>
     resolves T F (cIn, cOut, qr, fetching, tt, failed, routes, args, gas, syncing)
       (Inr \<lparr>state = INVALID, trade = None\<rparr>)"
| in_flight:
    "resolves T F (Some ci, Some co, qr, True, tt, failed, routes, args, gas, syncing)
       (Inr \<lparr>state = LOADING, trade = None\<rparr>)"
| amount_throws:
    "F (if tt = EXACT_INPUT then co else ci) (quote q) (Inl err) \<Longrightarrow>
     resolves T F (Some ci, Some co, Some q, False, tt, failed, routes, args, gas, syncing) (Inl err)"
| no_quote:
    "resolves T F (Some ci, Some co, None, False, tt, failed, routes, args, gas, syncing)
       (Inr \<lparr>state = NO_ROUTE_FOUND, trade = None\<rparr>)"
| no_route:
    "F (if tt = EXACT_INPUT then co else ci) (quote q) (Inr amount) \<Longrightarrow>
     failed \<or> routes = None \<or> routes = Some [] \<or> args = None \<Longrightarrow>
     resolves T F (Some ci, Some co, Some q, False, tt, failed, routes, args, gas, syncing)
       (Inr \<lparr>state = NO_ROUTE_FOUND, trade = None\<rparr>)"
| construction_fails:
    "F (if tt = EXACT_INPUT then co else ci) (quote q) (Inr amount) \<Longrightarrow> r \<noteq> [] \<Longrightarrow>
     T r tt gas (Inl e) \<Longrightarrow>
     resolves T F (Some ci, Some co, Some q, False, tt, False, Some r, Some k, gas, syncing)
       (Inr \<lparr>state = INVALID, trade = None\<rparr>)"
| constructed:
    "F (if tt = EXACT_INPUT then co else ci) (quote q) (Inr amount) \<Longrightarrow> r \<noteq> [] \<Longrightarrow>
     T r tt gas (Inr t) \<Longrightarrow>
     resolves T F (Some ci, Some co, Some q, False, tt, False, Some r, Some k, gas, syncing)
       (Inr \<lparr>state = (if syncing then SYNCING else VALID), trade = Some t\<rparr>)"

text \<open>A called function is deterministic when its arguments decide its outcome.\<close>

definition deterministic2 :: "('a \<Rightarrow> 'b \<Rightarrow> 'o \<Rightarrow> bool) \<Rightarrow> bool" where
  "deterministic2 R = (\<forall>a b o1 o2. R a b o1 \<longrightarrow> R a b o2 \<longrightarrow> o1 = o2)"

definition deterministic3 :: "('a \<Rightarrow> 'b \<Rightarrow> 'c \<Rightarrow> 'o \<Rightarrow> bool) \<Rightarrow> bool" where
  "deterministic3 R = (\<forall>a b c o1 o2. R a b c o1 \<longrightarrow> R a b c o2 \<longrightarrow> o1 = o2)"

subsection \<open>A sample render\<close>

text \<open>Concrete currencies, a quote and collaborators, to run the hook on.\<close>

definition WETH :: Currency where
  "WETH = \<lparr>chainId = 1, decimals = 18, symbol = ''WETH''\<rparr>"

definition DAI :: Currency where
  "DAI = \<lparr>chainId = 1, decimals = 18, symbol = ''DAI''\<rparr>"

definition BNB :: Currency where
  "BNB = \<lparr>chainId = 56, decimals = 18, symbol = ''BNB''\<rparr>"

definition NIL :: Currency where
  "NIL = \<lparr>chainId = 0, decimals = 18, symbol = ''NIL''\<rparr>"

definition amountOf :: "Currency \<Rightarrow> CurrencyAmount" where
  "amountOf c = \<lparr>currency = c, quotient = 100\<rparr>"

definition sampleQuote :: GetQuoteResult where
  "sampleQuote = \<lparr>blockNumber = ''1000'', quote = ''95'', gasUseEstimateUSD = ''3''\<rparr>"

definition badQuote :: GetQuoteResult where
  "badQuote = \<lparr>blockNumber = ''1000'', quote = ''abc'', gasUseEstimateUSD = ''3''\<rparr>"

definition sampleBigInt :: "string \<Rightarrow> int option" where
  "sampleBigInt s = (if s = ''95'' then Some 95 else if s = ''100'' then Some 100 else None)"

type_synonym QueryArgs =
  "Currency \<times> Currency \<times> CurrencyAmount \<times> TradeType \<times> string option \<times> string"

text \<open>
  Modelled from the spec: \<^verbatim>\<open>hooks/routing/useRouterArguments\<close> is not among the sources.
  The builder returns the request descriptor, or "no request" when tokenIn, tokenOut or
  the amount is missing or when the two tokens are the same asset. It is used by the
  sample render only.
\<close>

definition routerArguments ::
  "Currency option \<Rightarrow> Currency option \<Rightarrow> CurrencyAmount option \<Rightarrow> TradeType \<Rightarrow> string option
   \<Rightarrow> string \<Rightarrow> QueryArgs option" where
  "routerArguments tokenIn tokenOut amount tradeType routerUrl provider =
     (case tokenIn of None \<Rightarrow> None | Some i \<Rightarrow>
     (case tokenOut of None \<Rightarrow> None | Some out \<Rightarrow>
     (case amount of None \<Rightarrow> None | Some a \<Rightarrow>
        if i = out then None else Some (i, out, a, tradeType, routerUrl, provider))))"

definition sampleTransform :: "nat list \<Rightarrow> TradeType \<Rightarrow> CurrencyAmount option \<Rightarrow> unit + nat" where
  "sampleTransform r tt gas = Inr (length r)"

definition failingTransform :: "nat list \<Rightarrow> TradeType \<Rightarrow> CurrencyAmount option \<Rightarrow> unit + nat" where
  "failingTransform r tt gas = Inl ()"

text \<open>
  The sample collaborators: the surface is visible and the router supported, the debounce
  has settled, the fetch for the current arguments is complete and shows \<open>sampleQuote\<close>
  (a skipped query is idle), block 1000 is valid, and one route is found for a quote.
\<close>

definition sampleHooks :: "(QueryArgs, nat, nat, unit) Hooks" where
  "sampleHooks =
     \<lparr>useAutoRouterSupported = True,
      useIsWindowVisible = True,
      useDebounce = (\<lambda>p. p),
      AUTO_ROUTER_SUPPORTED_CHAINS = [1, 3, 4, 5, 42],
      useActiveWeb3React = None,
      useRouterArguments = routerArguments,
      useGetQuoteQuery = (\<lambda>k. case k of
                                None \<Rightarrow> (False, False, None, None)
                              | Some _ \<Rightarrow> (False, False, Some sampleQuote, Some sampleQuote)),
      useIsValidBlock = (\<lambda>n. 1000 \<le> n),
      Number = (\<lambda>s. if s = ''1000'' then Some 1000 else None),
      BigInt = sampleBigInt,
      computeRoutes = (\<lambda>i out tt qr. case qr of None \<Rightarrow> None | Some _ \<Rightarrow> Some [0]),
      useStablecoinAmountFromFiatValue = (\<lambda>usd. None),
      transformRoutesToTrade = sampleTransform\<rparr>"

text \<open>
  The same render while the arguments have just changed: the fetch for the new arguments
  is in flight, \<^verbatim>\<open>data\<close> still holds the previous arguments' quote and \<^verbatim>\<open>currentData\<close> is
  \<^verbatim>\<open>undefined\<close>.
\<close>

definition refetchingHooks :: "(QueryArgs, nat, nat, unit) Hooks" where
  "refetchingHooks = sampleHooks\<lparr>useGetQuoteQuery := (\<lambda>k. (True, False, Some sampleQuote, None))\<rparr>"

section \<open>Properties\<close>

subsection \<open>General facts\<close>

text \<open>
  With both currencies present, a fetch in flight decides the state, whatever the other
  inputs are (lines 98-103).
\<close>

lemma in_flight_LOADING:
  "tradeStateResolver transform toBigInt (Some ci) (Some co) qr True tt failed routes args gas syncing
     = Inr \<lparr>state = LOADING, trade = None\<rparr>"
  unfolding tradeStateResolver_def by simp

text \<open>
  Without query arguments and with no fetch in flight, a resolver that returns gives
  \<open>NO_ROUTE_FOUND\<close> or \<open>INVALID\<close> and no trade.
\<close>

lemma no_request_resolves:
  "tradeStateResolver transform toBigInt cIn cOut qr False tt failed routes None gas syncing = Inr res
   \<Longrightarrow> (state res = NO_ROUTE_FOUND \<or> state res = INVALID) \<and> trade res = None"
  unfolding tradeStateResolver_def by (auto split: option.splits sum.splits if_splits)

text \<open>
  A render throws at the chain check of line 57 or in \<^verbatim>\<open>fromRawAmount\<close> at line 107, and
  nowhere else: what the transform throws is never what the hook throws.
\<close>

lemma useRouterTrade_throws:
  "useRouterTrade h tt url a oc = Inl err \<Longrightarrow>
   (\<exists>n. err = UnsupportedChain n
        \<and> unsupportedChain (AUTO_ROUTER_SUPPORTED_CHAINS h) (fst (resolvedCurrencies h tt a oc)) = Some n)
   \<or> (\<exists>c raw. fromRawAmount (BigInt h) c raw = Inl err)"
  unfolding useRouterTrade_def tradeStateResolver_def otherAmount_def
  by (cases "resolvedCurrencies h tt a oc")
     (auto simp: Let_def split: option.splits sum.splits if_splits prod.splits)

text \<open>
  An input that reaches the construction step of lines 120-129 (line 107 has returned an
  amount) makes the resolver return, whatever the transform does.
\<close>

lemma construction_step_returns:
  "fromRawAmount toBigInt (if tt = EXACT_INPUT then co else ci) (quote q) = Inr amount \<Longrightarrow>
   \<exists>res. tradeStateResolver transform toBigInt (Some ci) (Some co) (Some q) False tt False (Some r)
            (Some k) gas syncing = Inr res"
  unfolding tradeStateResolver_def otherAmount_def by (simp split: sum.splits)

text \<open>
  The chain check throws for a resolved currencyIn whose chain id is not 0 and is outside
  the allow-list.
\<close>

lemma unsupported_chain_throws:
  "fst (resolvedCurrencies h tt a oc) = Some c \<Longrightarrow> chainId c \<noteq> 0 \<Longrightarrow>
   chainId c \<notin> set (AUTO_ROUTER_SUPPORTED_CHAINS h) \<Longrightarrow>
   useRouterTrade h tt url a oc = Inl (UnsupportedChain (chainId c))"
  unfolding useRouterTrade_def unsupportedChain_def
  by (cases "resolvedCurrencies h tt a oc") (simp add: Let_def)

lemma unsupported_chain_throws_BNB:
  "useRouterTrade sampleHooks EXACT_INPUT None (Some (amountOf BNB)) (Some DAI)
     = Inl (UnsupportedChain 56)"
  by (simp add: useRouterTrade_def refetchingHooks_def sampleHooks_def resolvedAmount_def
      resolvedCurrencies_def queryArgs_def debouncedAmountSpecified_def currencies_def
      unsupportedChain_def amountOf_def fromRawAmount_def MaxUint256_def sampleBigInt_def
      WETH_def DAI_def BNB_def NIL_def routerArguments_def providerUrl_def quoteResult_def
      blockOf_def sampleQuote_def isSyncing_def tradeStateResolver_def otherAmount_def
      sampleTransform_def)

text \<open>
  The relation and the function are the same resolver: when the two called functions are
  the graphs of \<open>transform\<close> and of \<open>fromRawAmount toBigInt\<close>, the relation holds of the
  function's value and of nothing else.
\<close>

lemma resolves_sound:
  assumes "resolves (\<lambda>r tt gas out. transform r tt gas = out)
     (\<lambda>c raw out. fromRawAmount toBigInt c raw = out) deps res"
  shows "res = (case deps of (cIn, cOut, qr, fetching, tt, failed, routes, args, gas, syncing) \<Rightarrow>
     tradeStateResolver transform toBigInt cIn cOut qr fetching tt failed routes args gas syncing)"
  using assms
proof cases
  case no_currency
  then show ?thesis by (auto simp: tradeStateResolver_def split: option.splits)
next
  case in_flight
  then show ?thesis by (simp add: tradeStateResolver_def)
next
  case amount_throws
  then show ?thesis by (simp add: tradeStateResolver_def otherAmount_def)
next
  case no_quote
  then show ?thesis by (simp add: tradeStateResolver_def otherAmount_def split: option.splits)
next
  case no_route
  then show ?thesis by (auto simp: tradeStateResolver_def otherAmount_def split: option.splits)
next
  case construction_fails
  then show ?thesis by (simp add: tradeStateResolver_def otherAmount_def)
next
  case constructed
  then show ?thesis by (simp add: tradeStateResolver_def otherAmount_def)
qed

lemma resolves_complete:
  "resolves (\<lambda>r tt gas out. transform r tt gas = out) (\<lambda>c raw out. fromRawAmount toBigInt c raw = out)
     (cIn, cOut, qr, fetching, tt, failed, routes, args, gas, syncing)
     (tradeStateResolver transform toBigInt cIn cOut qr fetching tt failed routes args gas syncing)"
proof (cases cIn)
  case None
  then show ?thesis by (simp add: tradeStateResolver_def no_currency)
next
  case ci: (Some ci)
  show ?thesis
  proof (cases cOut)
    case None
    then show ?thesis by (simp add: tradeStateResolver_def no_currency split: option.splits)
  next
    case co: (Some co)
    show ?thesis
    proof (cases fetching)
      case True
      with ci co show ?thesis by (simp add: tradeStateResolver_def in_flight)
    next
      case nf: False
      show ?thesis
      proof (cases qr)
        case None
        with ci co nf show ?thesis
          by (simp add: tradeStateResolver_def otherAmount_def no_quote split: option.splits)
      next
        case q: (Some q)
        show ?thesis
        proof (cases "fromRawAmount toBigInt (if tt = EXACT_INPUT then co else ci) (quote q)")
          case (Inl err)
          with ci co nf q show ?thesis
            by (simp add: tradeStateResolver_def otherAmount_def amount_throws)
        next
          case am: (Inr amount)
          show ?thesis
          proof (cases "failed \<or> routes = None \<or> routes = Some [] \<or> args = None")
            case True
            have "resolves (\<lambda>r tt gas out. transform r tt gas = out)
                (\<lambda>c raw out. fromRawAmount toBigInt c raw = out)
                (Some ci, Some co, Some q, False, tt, failed, routes, args, gas, syncing)
                (Inr \<lparr>state = NO_ROUTE_FOUND, trade = None\<rparr>)"
              by (rule no_route [where amount = amount]) (use am True in auto)
            moreover have "tradeStateResolver transform toBigInt cIn cOut qr fetching tt failed routes
                args gas syncing = Inr \<lparr>state = NO_ROUTE_FOUND, trade = None\<rparr>"
              using ci co nf q am True
              by (auto simp: tradeStateResolver_def otherAmount_def split: option.splits)
            ultimately show ?thesis using ci co nf q by simp
          next
            case False
            then obtain r k where rk: "routes = Some r" "r \<noteq> []" "args = Some k" "\<not> failed"
              by (cases routes; cases args) auto
            show ?thesis
            proof (cases "transform r tt gas")
              case (Inl e)
              have "resolves (\<lambda>r tt gas out. transform r tt gas = out)
                  (\<lambda>c raw out. fromRawAmount toBigInt c raw = out)
                  (Some ci, Some co, Some q, False, tt, False, Some r, Some k, gas, syncing)
                  (Inr \<lparr>state = INVALID, trade = None\<rparr>)"
                by (rule construction_fails [where amount = amount and e = e]) (use am rk Inl in auto)
              with ci co nf q am rk Inl show ?thesis
                by (simp add: tradeStateResolver_def otherAmount_def)
            next
              case (Inr t)
              have "resolves (\<lambda>r tt gas out. transform r tt gas = out)
                  (\<lambda>c raw out. fromRawAmount toBigInt c raw = out)
                  (Some ci, Some co, Some q, False, tt, False, Some r, Some k, gas, syncing)
                  (Inr \<lparr>state = (if syncing then SYNCING else VALID), trade = Some t\<rparr>)"
                by (rule constructed [where amount = amount]) (use am rk Inr in auto)
              with ci co nf q am rk Inr show ?thesis
                by (simp add: tradeStateResolver_def otherAmount_def)
            qed
          qed
        qed
      qed
    qed
  qed
qed

lemma resolves_function:
  "resolves (\<lambda>r tt gas out. transform r tt gas = out) (\<lambda>c raw out. fromRawAmount toBigInt c raw = out)
     (cIn, cOut, qr, fetching, tt, failed, routes, args, gas, syncing) res
   \<longleftrightarrow> res = tradeStateResolver transform toBigInt cIn cOut qr fetching tt failed routes args gas syncing"
  using resolves_sound [of transform toBigInt
      "(cIn, cOut, qr, fetching, tt, failed, routes, args, gas, syncing)" res]
    resolves_complete [of transform toBigInt cIn cOut qr fetching tt failed routes args gas syncing]
  by auto

subsection \<open>The resolver\<close>

text \<open>
  Claim C1 (what the code does). On a render in which the arguments have just changed, so
  that the previous arguments' quote is still shown (\<^verbatim>\<open>isSyncing\<close>) and the fetch for the new
  arguments is in flight (\<^verbatim>\<open>isFetching\<close>), the hook resolves \<open>LOADING\<close> with no trade, not
  \<open>SYNCING\<close>: the test of line 98 comes first. The resolver's inputs of that render give
  \<open>LOADING\<close>, and the same inputs with the in-flight flag off give \<open>SYNCING\<close> with the trade.
\<close>

theorem fetch_in_flight_preempts_SYNCING:
  "useRouterTrade refetchingHooks EXACT_INPUT None (Some (amountOf WETH)) (Some DAI)
     = Inr \<lparr>state = LOADING, trade = None\<rparr>
   \<and> tradeStateResolver sampleTransform sampleBigInt (Some WETH) (Some DAI) (Some sampleQuote) True
       EXACT_INPUT False (Some [0])
       (routerArguments (Some WETH) (Some DAI) (Some (amountOf WETH)) EXACT_INPUT None []) None True
     = Inr \<lparr>state = LOADING, trade = None\<rparr>
   \<and> tradeStateResolver sampleTransform sampleBigInt (Some WETH) (Some DAI) (Some sampleQuote) False
       EXACT_INPUT False (Some [0])
       (routerArguments (Some WETH) (Some DAI) (Some (amountOf WETH)) EXACT_INPUT None []) None True
     = Inr \<lparr>state = SYNCING, trade = Some 1\<rparr>"
  by (simp add: useRouterTrade_def refetchingHooks_def sampleHooks_def resolvedAmount_def
      resolvedCurrencies_def queryArgs_def debouncedAmountSpecified_def currencies_def
      unsupportedChain_def amountOf_def fromRawAmount_def MaxUint256_def sampleBigInt_def
      WETH_def DAI_def BNB_def NIL_def routerArguments_def providerUrl_def quoteResult_def
      blockOf_def sampleQuote_def isSyncing_def tradeStateResolver_def otherAmount_def
      sampleTransform_def)

text \<open>
  Claim C2. If currencyIn is absent or currencyOut is absent, the resolver returns state
  \<open>INVALID\<close> with no trade, for every value of its other inputs.
\<close>

theorem absent_currency_INVALID:
  "cIn = None \<or> cOut = None \<Longrightarrow>
   tradeStateResolver transform toBigInt cIn cOut qr fetching tt failed routes args gas syncing
     = Inr \<lparr>state = INVALID, trade = None\<rparr>"
  unfolding tradeStateResolver_def by (auto split: option.splits)

theorem absent_currency_INVALID_witness:
  "(Some WETH = None \<or> (None :: Currency option) = None) \<and>
   tradeStateResolver sampleTransform sampleBigInt (Some WETH) None (Some sampleQuote) True
     EXACT_OUTPUT True (Some [0]) (Some (0::nat)) None True = Inr \<lparr>state = INVALID, trade = None\<rparr>"
proof -
  have h: "Some WETH = None \<or> (None :: Currency option) = None" by simp
  show ?thesis
    using h absent_currency_INVALID [OF h, where transform = sampleTransform] by simp
qed

text \<open>
  Claim C3. When the query arguments of a render are the "no request" sentinel, the
  fetcher is given \<^verbatim>\<open>skipToken\<close> (line 73) and, being idle for it, reports no fetch in
  flight; the state the hook resolves is then \<open>NO_ROUTE_FOUND\<close> or \<open>INVALID\<close>, never
  \<open>LOADING\<close>, \<open>VALID\<close> or \<open>SYNCING\<close>, and there is no trade.
\<close>

theorem no_request_NO_ROUTE_FOUND_or_INVALID:
  "idleOnSkip h \<Longrightarrow> queryArgs h tt url a oc = None \<Longrightarrow> useRouterTrade h tt url a oc = Inr res \<Longrightarrow>
   (state res = NO_ROUTE_FOUND \<or> state res = INVALID)
   \<and> state res \<noteq> LOADING \<and> state res \<noteq> VALID \<and> state res \<noteq> SYNCING \<and> trade res = None"
proof -
  assume idle: "idleOnSkip h" and none: "queryArgs h tt url a oc = None"
    and ret: "useRouterTrade h tt url a oc = Inr res"
  obtain cIn cOut where cs: "resolvedCurrencies h tt a oc = (cIn, cOut)"
    by (cases "resolvedCurrencies h tt a oc")
  obtain failed data currentData where
    fetch: "useGetQuoteQuery h None = (False, failed, data, currentData)"
    using idle unfolding idleOnSkip_def by (cases "useGetQuoteQuery h None") auto
  from ret cs none fetch show ?thesis
    unfolding useRouterTrade_def
    by (auto simp: Let_def split: option.splits dest: no_request_resolves)
qed

theorem no_request_NO_ROUTE_FOUND_or_INVALID_witness:
  "idleOnSkip sampleHooks
   \<and> queryArgs sampleHooks EXACT_INPUT None (Some (amountOf WETH)) (Some WETH) = None
   \<and> useRouterTrade sampleHooks EXACT_INPUT None (Some (amountOf WETH)) (Some WETH)
       = Inr \<lparr>state = NO_ROUTE_FOUND, trade = None\<rparr>
   \<and> state \<lparr>state = NO_ROUTE_FOUND, trade = (None :: nat option)\<rparr> \<noteq> LOADING"
proof -
  have h1: "idleOnSkip sampleHooks" by (simp add: idleOnSkip_def sampleHooks_def)
  have h2: "queryArgs sampleHooks EXACT_INPUT None (Some (amountOf WETH)) (Some WETH) = None"
    by (simp add: queryArgs_def sampleHooks_def resolvedCurrencies_def resolvedAmount_def
        debouncedAmountSpecified_def currencies_def routerArguments_def amountOf_def)
  have h3: "useRouterTrade sampleHooks EXACT_INPUT None (Some (amountOf WETH)) (Some WETH)
       = Inr \<lparr>state = NO_ROUTE_FOUND, trade = None\<rparr>"
    by (simp add: useRouterTrade_def refetchingHooks_def sampleHooks_def resolvedAmount_def
      resolvedCurrencies_def queryArgs_def debouncedAmountSpecified_def currencies_def
      unsupportedChain_def amountOf_def fromRawAmount_def MaxUint256_def sampleBigInt_def
      WETH_def DAI_def BNB_def NIL_def routerArguments_def providerUrl_def quoteResult_def
      blockOf_def sampleQuote_def isSyncing_def tradeStateResolver_def otherAmount_def
      sampleTransform_def)
  show ?thesis
    using h1 h2 h3 no_request_NO_ROUTE_FOUND_or_INVALID [OF h1 h2 h3] by simp
qed

text \<open>
  Claim C4. If \<^verbatim>\<open>transformRoutesToTrade\<close> throws, whatever it throws, on an input that
  reaches the construction step (both currencies present, no fetch in flight, a quote from
  which line 107 has built the amount, no error, a non-empty route, query arguments), the
  resolver returns state \<open>INVALID\<close> and no trade: it returns, and what the transform threw
  is not thrown on.
\<close>

theorem transform_failure_INVALID:
  "fromRawAmount toBigInt (if tt = EXACT_INPUT then co else ci) (quote q) = Inr amount \<Longrightarrow>
   r \<noteq> [] \<Longrightarrow> transform r tt gas = Inl e \<Longrightarrow>
   tradeStateResolver transform toBigInt (Some ci) (Some co) (Some q) False tt False (Some r) (Some k)
     gas syncing
     = Inr \<lparr>state = INVALID, trade = None\<rparr>"
  unfolding tradeStateResolver_def otherAmount_def by simp

theorem transform_failure_INVALID_witness:
  "fromRawAmount sampleBigInt (if EXACT_INPUT = EXACT_INPUT then DAI else WETH) (quote sampleQuote)
     = Inr \<lparr>currency = DAI, quotient = 95\<rparr>
   \<and> [0::nat] \<noteq> []
   \<and> failingTransform [0] EXACT_INPUT None = Inl ()
   \<and> tradeStateResolver failingTransform sampleBigInt (Some WETH) (Some DAI) (Some sampleQuote) False
       EXACT_INPUT False (Some [0]) (Some (0::nat)) None True = Inr \<lparr>state = INVALID, trade = None\<rparr>"
proof -
  have h1: "fromRawAmount sampleBigInt (if EXACT_INPUT = EXACT_INPUT then DAI else WETH)
      (quote sampleQuote) = Inr \<lparr>currency = DAI, quotient = 95\<rparr>"
    by (simp add: fromRawAmount_def sampleBigInt_def sampleQuote_def MaxUint256_def)
  have h2: "[0::nat] \<noteq> []" by simp
  have h3: "failingTransform [0] EXACT_INPUT None = Inl ()" by (simp add: failingTransform_def)
  show ?thesis
    using h1 h2 h3 transform_failure_INVALID [where transform = failingTransform
        and toBigInt = sampleBigInt and r = "[0]" and tt = EXACT_INPUT and gas = None
        and e = "()" and ci = WETH and co = DAI and q = sampleQuote and k = "0::nat"
        and syncing = True and amount = "\<lparr>currency = DAI, quotient = 95\<rparr>", OF h1 h2 h3]
    by blast
qed

text \<open>
  Claim C6. When a fetch has succeeded with data \<open>d\<close> but the block oracle rejects the
  block number read from it, the filtered quote result is absent, and with both currencies
  present and no fetch in flight the resolver returns \<open>NO_ROUTE_FOUND\<close> with no trade,
  whatever its other inputs are.
\<close>

theorem stale_block_NO_ROUTE_FOUND:
  "\<not> isValidBlock (blockOf toNumber (Some d)) \<Longrightarrow>
   quoteResult isValidBlock toNumber (Some d) = None
   \<and> tradeStateResolver transform toBigInt (Some ci) (Some co)
       (quoteResult isValidBlock toNumber (Some d)) False tt failed routes args gas syncing
     = Inr \<lparr>state = NO_ROUTE_FOUND, trade = None\<rparr>"
  unfolding tradeStateResolver_def quoteResult_def otherAmount_def
  by (simp split: option.splits)

theorem stale_block_NO_ROUTE_FOUND_witness:
  "\<not> (\<lambda>n. 1001 \<le> n) (blockOf (Number sampleHooks) (Some sampleQuote))
   \<and> quoteResult (\<lambda>n. 1001 \<le> n) (Number sampleHooks) (Some sampleQuote) = None
   \<and> tradeStateResolver sampleTransform sampleBigInt (Some WETH) (Some DAI)
       (quoteResult (\<lambda>n. 1001 \<le> n) (Number sampleHooks) (Some sampleQuote))
       False EXACT_INPUT False (Some [0]) (Some (0::nat)) None False
     = Inr \<lparr>state = NO_ROUTE_FOUND, trade = None\<rparr>"
proof -
  have h: "\<not> (\<lambda>n. 1001 \<le> n) (blockOf (Number sampleHooks) (Some sampleQuote))"
    by (simp add: blockOf_def sampleHooks_def sampleQuote_def)
  show ?thesis
    using h stale_block_NO_ROUTE_FOUND [where isValidBlock = "\<lambda>n. 1001 \<le> n"
        and toNumber = "Number sampleHooks" and d = sampleQuote and transform = sampleTransform
        and toBigInt = sampleBigInt and ci = WETH and co = DAI and tt = EXACT_INPUT
        and failed = False and routes = "Some [0]" and args = "Some (0::nat)" and gas = None
        and syncing = False, OF h]
    by blast
qed

text \<open>
  Claim C10. For every resolver input, the returned trade is present exactly when the
  returned state is \<open>VALID\<close> or \<open>SYNCING\<close>, and absent exactly when the state is \<open>INVALID\<close>,
  \<open>LOADING\<close> or \<open>NO_ROUTE_FOUND\<close>; the exported constant \<open>INVALID_TRADE\<close> of line 20 is
  state \<open>INVALID\<close> with no trade.
\<close>

theorem trade_present_iff_VALID_or_SYNCING:
  "tradeStateResolver transform toBigInt cIn cOut qr fetching tt failed routes args gas syncing = Inr res
   \<Longrightarrow> (trade res \<noteq> None) = (state res = VALID \<or> state res = SYNCING)
     \<and> (trade res = None) = (state res = INVALID \<or> state res = LOADING \<or> state res = NO_ROUTE_FOUND)
     \<and> state (INVALID_TRADE :: 't TradeResult) = INVALID
     \<and> trade (INVALID_TRADE :: 't TradeResult) = None"
  unfolding tradeStateResolver_def INVALID_TRADE_def
  by (auto split: option.splits sum.splits if_splits)

theorem trade_present_iff_VALID_or_SYNCING_witness:
  "tradeStateResolver sampleTransform sampleBigInt (Some WETH) (Some DAI) (Some sampleQuote) False
     EXACT_INPUT False (Some [0]) (Some (0::nat)) None False = Inr \<lparr>state = VALID, trade = Some 1\<rparr>
   \<and> (trade \<lparr>state = VALID, trade = Some (1::nat)\<rparr> \<noteq> None)
       = (state \<lparr>state = VALID, trade = Some (1::nat)\<rparr> = VALID
          \<or> state \<lparr>state = VALID, trade = Some (1::nat)\<rparr> = SYNCING)"
proof -
  have h: "tradeStateResolver sampleTransform sampleBigInt (Some WETH) (Some DAI) (Some sampleQuote)
      False EXACT_INPUT False (Some [0]) (Some (0::nat)) None False
      = Inr \<lparr>state = VALID, trade = Some 1\<rparr>"
    by (simp add: tradeStateResolver_def otherAmount_def fromRawAmount_def sampleBigInt_def
        sampleQuote_def MaxUint256_def sampleTransform_def)
  show ?thesis
    using h trade_present_iff_VALID_or_SYNCING [OF h] by blast
qed

text \<open>
  Claim C9. The resolution is deterministic: provided the two functions the resolver
  calls, \<^verbatim>\<open>transformRoutesToTrade\<close> and \<^verbatim>\<open>fromRawAmount\<close>, are (their arguments decide their
  outcome), any two resolutions on the same tuple of dependencies end the same way, with
  the same state and the same trade. The resolver reads nothing but its dependencies and
  adds no choice of its own.
\<close>

theorem resolution_deterministic:
  assumes dT: "deterministic3 T" and dF: "deterministic2 F"
    and r1: "resolves T F deps res1" and r2: "resolves T F deps res2"
  shows "res1 = res2"
proof -
  have T: "\<And>r tt g o1 o2. T r tt g o1 \<Longrightarrow> T r tt g o2 \<Longrightarrow> o1 = o2"
    using dT unfolding deterministic3_def by blast
  have F: "\<And>c raw o1 o2. F c raw o1 \<Longrightarrow> F c raw o2 \<Longrightarrow> o1 = o2"
    using dF unfolding deterministic2_def by blast
  from r1 show ?thesis
  proof cases
    case no_currency
    with r2 show ?thesis by cases auto
  next
    case in_flight
    with r2 show ?thesis by cases auto
  next
    case amount_throws
    with r2 show ?thesis by cases (auto dest: F)
  next
    case no_quote
    with r2 show ?thesis by cases auto
  next
    case no_route
    with r2 show ?thesis by cases (auto dest: F)
  next
    case construction_fails
    with r2 show ?thesis by cases (auto dest: F T)
  next
    case constructed
    with r2 show ?thesis by cases (auto dest: F T)
  qed
qed

theorem resolution_deterministic_witness:
  "deterministic3 (\<lambda>r tt gas out. sampleTransform r tt gas = out)
   \<and> deterministic2 (\<lambda>c raw out. fromRawAmount sampleBigInt c raw = out)
   \<and> resolves (\<lambda>r tt gas out. sampleTransform r tt gas = out)
       (\<lambda>c raw out. fromRawAmount sampleBigInt c raw = out)
       (Some WETH, Some DAI, Some sampleQuote, False, EXACT_INPUT, False, Some [0], Some (0::nat),
        None, False)
       (Inr \<lparr>state = VALID, trade = Some 1\<rparr>)
   \<and> resolves (\<lambda>r tt gas out. sampleTransform r tt gas = out)
       (\<lambda>c raw out. fromRawAmount sampleBigInt c raw = out)
       (Some WETH, Some DAI, Some sampleQuote, False, EXACT_INPUT, False, Some [0], Some (0::nat),
        None, False)
       (tradeStateResolver sampleTransform sampleBigInt (Some WETH) (Some DAI) (Some sampleQuote)
          False EXACT_INPUT False (Some [0]) (Some (0::nat)) None False)
   \<and> Inr \<lparr>state = VALID, trade = Some 1\<rparr>
       = tradeStateResolver sampleTransform sampleBigInt (Some WETH) (Some DAI) (Some sampleQuote)
           False EXACT_INPUT False (Some [0]) (Some (0::nat)) None False"
proof -
  have h1: "deterministic3 (\<lambda>r tt gas out. sampleTransform r tt gas = out)"
    by (simp add: deterministic3_def)
  have h2: "deterministic2 (\<lambda>c raw out. fromRawAmount sampleBigInt c raw = out)"
    by (simp add: deterministic2_def)
  have amount: "fromRawAmount sampleBigInt DAI (quote sampleQuote)
      = Inr \<lparr>currency = DAI, quotient = 95\<rparr>"
    by (simp add: fromRawAmount_def sampleBigInt_def sampleQuote_def MaxUint256_def)
  have h3: "resolves (\<lambda>r tt gas out. sampleTransform r tt gas = out)
       (\<lambda>c raw out. fromRawAmount sampleBigInt c raw = out)
       (Some WETH, Some DAI, Some sampleQuote, False, EXACT_INPUT, False, Some [0], Some (0::nat),
        None, False)
       (Inr \<lparr>state = (if False then SYNCING else VALID), trade = Some 1\<rparr>)"
    by (rule constructed [where amount = "\<lparr>currency = DAI, quotient = 95\<rparr>"])
       (simp_all add: amount sampleTransform_def)
  then have h3': "resolves (\<lambda>r tt gas out. sampleTransform r tt gas = out)
       (\<lambda>c raw out. fromRawAmount sampleBigInt c raw = out)
       (Some WETH, Some DAI, Some sampleQuote, False, EXACT_INPUT, False, Some [0], Some (0::nat),
        None, False)
       (Inr \<lparr>state = VALID, trade = Some 1\<rparr>)"
    by simp
  have h4: "resolves (\<lambda>r tt gas out. sampleTransform r tt gas = out)
       (\<lambda>c raw out. fromRawAmount sampleBigInt c raw = out)
       (Some WETH, Some DAI, Some sampleQuote, False, EXACT_INPUT, False, Some [0], Some (0::nat),
        None, False)
       (tradeStateResolver sampleTransform sampleBigInt (Some WETH) (Some DAI) (Some sampleQuote)
          False EXACT_INPUT False (Some [0]) (Some (0::nat)) None False)"
    by (rule resolves_complete)
  show ?thesis
    using h1 h2 h3' h4 resolution_deterministic [OF h1 h2 h3' h4] by blast
qed

subsection \<open>The gate and the orientation of the currencies\<close>

text \<open>
  Claim C7. The gate of line 45 passes the debounced amount through unchanged when the
  auto router is supported and the window is visible, and gives no amount when either is
  false; the amount a render hands on (to the argument builder and to the currencies) is
  that gated amount.
\<close>

theorem gate_passes_iff_supported_and_visible:
  "(supported \<and> visible \<longrightarrow> debouncedAmountSpecified supported visible debouncedAmount = debouncedAmount)
   \<and> (\<not> (supported \<and> visible) \<longrightarrow> debouncedAmountSpecified supported visible debouncedAmount = None)
   \<and> (useAutoRouterSupported h \<and> useIsWindowVisible h
        \<longrightarrow> resolvedAmount h a oc = fst (useDebounce h (a, oc)))
   \<and> (\<not> (useAutoRouterSupported h \<and> useIsWindowVisible h) \<longrightarrow> resolvedAmount h a oc = None)"
  unfolding debouncedAmountSpecified_def resolvedAmount_def by simp

theorem gate_passes_iff_supported_and_visible_witness:
  "debouncedAmountSpecified True True (Some (amountOf WETH)) = Some (amountOf WETH)
   \<and> debouncedAmountSpecified True False (Some (amountOf WETH)) = None
   \<and> debouncedAmountSpecified False True (Some (amountOf WETH)) = None
   \<and> resolvedAmount sampleHooks (Some (amountOf WETH)) (Some DAI) = Some (amountOf WETH)
   \<and> resolvedAmount (sampleHooks\<lparr>useIsWindowVisible := False\<rparr>) (Some (amountOf WETH)) (Some DAI) = None"
  using gate_passes_iff_supported_and_visible [of True True "Some (amountOf WETH)" sampleHooks
      "Some (amountOf WETH)" "Some DAI"]
    gate_passes_iff_supported_and_visible [of True False "Some (amountOf WETH)"
      "sampleHooks\<lparr>useIsWindowVisible := False\<rparr>" "Some (amountOf WETH)" "Some DAI"]
    gate_passes_iff_supported_and_visible [of False True "Some (amountOf WETH)" sampleHooks
      "Some (amountOf WETH)" "Some DAI"]
  by (simp add: sampleHooks_def)

text \<open>
  Claim C8. For \<open>EXACT_INPUT\<close>, currencyIn is the currency of the specified (gated,
  debounced) amount and currencyOut is the other currency, and the quoted amount is built
  from the raw quote in currencyOut; for \<open>EXACT_OUTPUT\<close> the two currencies are swapped and
  the quoted amount is built in currencyIn; without a filtered quote result there is no
  quoted amount. Where the SDK rejects the raw quote, building the amount throws.
\<close>

theorem currency_orientation:
  "currencies EXACT_INPUT amount other = (map_option currency amount, other)
   \<and> currencies EXACT_OUTPUT amount other = (other, map_option currency amount)
   \<and> resolvedCurrencies h EXACT_INPUT a oc
       = (map_option currency (resolvedAmount h a oc), snd (useDebounce h (a, oc)))
   \<and> resolvedCurrencies h EXACT_OUTPUT a oc
       = (snd (useDebounce h (a, oc)), map_option currency (resolvedAmount h a oc))
   \<and> otherAmount toBigInt EXACT_INPUT ci co (Some q)
       = (case toBigInt (quote q) of
            None \<Rightarrow> Inl (BigIntSyntaxError (quote q))
          | Some n \<Rightarrow> if n \<le> MaxUint256 then Inr (Some \<lparr>currency = co, quotient = n\<rparr>)
                      else Inl InvariantAMOUNT)
   \<and> otherAmount toBigInt EXACT_OUTPUT ci co (Some q)
       = (case toBigInt (quote q) of
            None \<Rightarrow> Inl (BigIntSyntaxError (quote q))
          | Some n \<Rightarrow> if n \<le> MaxUint256 then Inr (Some \<lparr>currency = ci, quotient = n\<rparr>)
                      else Inl InvariantAMOUNT)
   \<and> otherAmount toBigInt tt ci co None = Inr None"
  unfolding currencies_def resolvedCurrencies_def otherAmount_def fromRawAmount_def
  by (simp split: option.splits)

subsection \<open>The chain check\<close>

text \<open>
  Claim C5 (what the code does). A currency whose chain id is 0 is outside the allow-list
  of supported chains, and the hook does not throw for it: the test of line 56 is falsy
  for the number 0, so the render goes on to query and resolves a state.
\<close>

theorem chain_zero_not_thrown:
  "fst (resolvedCurrencies sampleHooks EXACT_INPUT (Some (amountOf NIL)) (Some DAI)) = Some NIL
   \<and> chainId NIL \<notin> set (AUTO_ROUTER_SUPPORTED_CHAINS sampleHooks)
   \<and> useRouterTrade sampleHooks EXACT_INPUT None (Some (amountOf NIL)) (Some DAI)
       = Inr \<lparr>state = VALID, trade = Some 1\<rparr>"
  by (simp add: useRouterTrade_def refetchingHooks_def sampleHooks_def resolvedAmount_def
      resolvedCurrencies_def queryArgs_def debouncedAmountSpecified_def currencies_def
      unsupportedChain_def amountOf_def fromRawAmount_def MaxUint256_def sampleBigInt_def
      WETH_def DAI_def BNB_def NIL_def routerArguments_def providerUrl_def quoteResult_def
      blockOf_def sampleQuote_def isSyncing_def tradeStateResolver_def otherAmount_def
      sampleTransform_def)

end
